theory Spec2Isabelle
  imports Main
begin

section \<open>Python strings\<close>

text \<open>
  A Python \<open>str\<close> is modelled as a \<open>string\<close>. The operations below are the ones the two
  scripts \<open>test.py\<close> and \<open>test2.py\<close> apply to strings.
\<close>

text \<open>\<open>s.startswith(p)\<close>.\<close>

definition startswith :: "string \<Rightarrow> string \<Rightarrow> bool" where
  "startswith s p = (take (length p) s = p)"

text \<open>\<open>s.strip(chars)\<close>: every leading and every trailing character that occurs in
  \<open>chars\<close> is removed.\<close>

definition py_strip :: "string \<Rightarrow> string \<Rightarrow> string" where
  "py_strip chars s =
     rev (dropWhile (\<lambda>c. c \<in> set chars) (rev (dropWhile (\<lambda>c. c \<in> set chars) s)))"

text \<open>\<open>s.lower()\<close> on the ASCII letters; every other character is left as it is.\<close>

definition lower_char :: "char \<Rightarrow> char" where
  "lower_char c =
     (let n = (of_char c :: nat) in if 65 \<le> n \<and> n \<le> 90 then char_of (n + 32) else c)"

definition lower :: "string \<Rightarrow> string" where
  "lower s = map lower_char s"

text \<open>\<open>s.split(sep)\<close> for a one-character separator, and \<open>sep.join(xs)\<close>.\<close>

fun split :: "char \<Rightarrow> string \<Rightarrow> string list" where
  "split sep [] = [[]]"
| "split sep (c # cs) =
     (if c = sep then [] # split sep cs
      else (case split sep cs of
              [] \<Rightarrow> [[c]]
            | w # ws \<Rightarrow> (c # w) # ws))"

fun join :: "string \<Rightarrow> string list \<Rightarrow> string" where
  "join sep [] = []"
| "join sep [x] = x"
| "join sep (x # y # ys) = x @ sep @ join sep (y # ys)"

text \<open>\<open>s.rfind(c)\<close> for a single character: the index of its last occurrence, or
  \<open>-1\<close> when there is none.\<close>

definition rfind :: "string \<Rightarrow> char \<Rightarrow> int" where
  "rfind s c =
     (if c \<in> set s then int (length s) - 1 - int (length (takeWhile (\<lambda>d. d \<noteq> c) (rev s)))
      else - 1)"

text \<open>Truthiness of a value of type \<open>str | None\<close>: \<open>None\<close> and the empty string are
  false. \<open>truthy\<close> returns the string when it counts as true.\<close>

fun truthy :: "string option \<Rightarrow> string option" where
  "truthy None = None"
| "truthy (Some s) = (if s = [] then None else Some s)"

section \<open>Paths\<close>

text \<open>
  A \<open>pathlib.Path\<close> on a POSIX system: a root (\<open>''''\<close>, \<open>''/''\<close> or \<open>''//''\<close>) and the
  list of its components. The constructor drops empty components and the components
  \<open>''.''\<close>; exactly two leading slashes are kept as the root \<open>''//''\<close>.
\<close>

datatype path = PosixPath (root: string) (parts: "string list")

definition Path :: "string \<Rightarrow> path" where
  "Path s =
     (let n = length (takeWhile (\<lambda>c. c = CHR ''/'') s);
          r = (if n = 0 then [] else if n = 2 then ''//'' else ''/'')
      in PosixPath r (filter (\<lambda>x. x \<noteq> [] \<and> x \<noteq> ''.'') (split (CHR ''/'') s)))"

definition str :: "path \<Rightarrow> string" where
  "str p = (if root p = [] \<and> parts p = [] then ''.'' else root p @ join ''/'' (parts p))"

text \<open>\<open>p.name\<close>: the final component, the empty string when there is none.\<close>

definition name :: "path \<Rightarrow> string" where
  "name p = (if parts p = [] then [] else last (parts p))"

text \<open>\<open>p.suffix\<close>: the part of the name from its last dot on, when that dot is neither the
  first nor the last character of the name (\<open>pathlib\<close> up to Python 3.13; later versions
  also give the suffix \<open>''.''\<close> to a name that ends with a dot, which no check of the
  scripts tells apart from the empty suffix).\<close>

definition suffix :: "path \<Rightarrow> string" where
  "suffix p =
     (let nm = name p; i = rfind nm (CHR ''.'')
      in if 0 < i \<and> i < int (length nm) - 1 then drop (nat i) nm else [])"

section \<open>Destination keys\<close>

text \<open>\<open>build_s3_key\<close> of \<open>test.py\<close>.\<close>

definition test_build_s3_key :: "path \<Rightarrow> string option \<Rightarrow> string" where
  "test_build_s3_key local_file_path s3_key =
     (case truthy s3_key of
        Some k \<Rightarrow> (if startswith k ''/'' then drop 1 k else k)
      | None \<Rightarrow> name local_file_path)"

text \<open>\<open>build_s3_key\<close> of \<open>test2.py\<close>, with the optional folder.\<close>

definition test2_build_s3_key :: "path \<Rightarrow> string option \<Rightarrow> string option \<Rightarrow> string" where
  "test2_build_s3_key local_file_path s3_key folder =
     (case truthy s3_key of
        Some k \<Rightarrow> (if startswith k ''/'' then drop 1 k else k)
      | None \<Rightarrow>
          (let filename = name local_file_path in
           case truthy folder of
             Some f \<Rightarrow> py_strip ''/'' f @ ''/'' @ filename
           | None \<Rightarrow> filename))"

section \<open>The world outside the scripts\<close>

text \<open>
  What the scripts read from outside: the settings object of \<open>app.config\<close>, the file
  system behind \<open>pathlib\<close>, the type table of the \<open>mimetypes\<close> module and the S3 session
  of \<open>app.utils.s3\<close>. A call that may raise returns a sum, \<open>Inl\<close> carrying the text of the
  exception. An S3 client is its \<open>upload_file\<close> method, taking \<open>Filename\<close>, \<open>Bucket\<close>,
  \<open>Key\<close> and \<open>ExtraArgs\<close>; it answers \<open>None\<close> when the transfer returns and \<open>Some e\<close> when it
  raises an \<open>Exception\<close> whose text is \<open>e\<close>.
\<close>

type_synonym s3_client = "string \<Rightarrow> string \<Rightarrow> string \<Rightarrow> (string \<times> string) list \<Rightarrow> string option"

record env =
  AWS_BUCKET_NAME :: "string option"
  AWS_REGION :: string
  ENVIRONMENT :: string
  resolve :: "path \<Rightarrow> string + path"
  exists :: "path \<Rightarrow> bool"
  is_file :: "path \<Rightarrow> bool"
  types_map :: "string \<rightharpoonup> string"
  client :: "string \<Rightarrow> string + s3_client"

text \<open>
  \<open>resolve\<close> stands for \<open>expanduser().resolve()\<close>. What a function does beyond returning is
  a list of events, in order: the lines handed to the logger and the transfers asked of
  the S3 client. A function ends by returning a value (\<open>Inr\<close>), by \<open>sys.exit\<close> or by an
  exception nobody catches.
\<close>

datatype level = INFO | WARNING | ERROR | SUCCESS

datatype event =
    Log level string
  | UploadFile string string string "(string \<times> string) list"

datatype abort = SystemExit int | Uncaught string

type_synonym 'a io = "event list \<times> (abort + 'a)"

text \<open>The exit status of the process: an uncaught exception ends the interpreter with
  status 1.\<close>

fun exit_status :: "'a io \<Rightarrow> int" where
  "exit_status (evs, Inr v) = 0"
| "exit_status (evs, Inl (SystemExit n)) = n"
| "exit_status (evs, Inl (Uncaught e)) = 1"

text \<open>The transfers among the events, and the logged lines of one level.\<close>

fun uploads :: "event list \<Rightarrow> event list" where
  "uploads [] = []"
| "uploads (Log l m # evs) = uploads evs"
| "uploads (UploadFile f b k x # evs) = UploadFile f b k x # uploads evs"

fun logged :: "level \<Rightarrow> event list \<Rightarrow> string list" where
  "logged l [] = []"
| "logged l (Log l' m # evs) = (if l' = l then m # logged l evs else logged l evs)"
| "logged l (UploadFile f b k x # evs) = logged l evs"

section \<open>Validation\<close>

definition SUPPORTED_IMAGE_EXTENSIONS :: "string list" where
  "SUPPORTED_IMAGE_EXTENSIONS = [''.png'', ''.jpg'', ''.jpeg'', ''.gif'', ''.webp'', ''.bmp'']"

text \<open>\<open>validate_inputs\<close> of \<open>test.py\<close>.\<close>

definition test_validate_inputs :: "env \<Rightarrow> string \<Rightarrow> path io" where
  "test_validate_inputs w local_path =
     (case resolve w (Path local_path) of
        Inl e \<Rightarrow> ([], Inl (Uncaught e))
      | Inr local_file_path \<Rightarrow>
          if \<not> exists w local_file_path then
            ([Log ERROR (''File not found: '' @ str local_file_path)], Inl (SystemExit 1))
          else if \<not> is_file w local_file_path then
            ([Log ERROR (''Not a file: '' @ str local_file_path)], Inl (SystemExit 1))
          else if lower (suffix local_file_path) \<noteq> ''.pdf'' then
            ([Log WARNING ''The specified file does not have a .pdf extension.''],
             Inr local_file_path)
          else ([], Inr local_file_path))"

text \<open>\<open>validate_inputs\<close> of \<open>test2.py\<close>. The set of extensions is listed in the error line
  in the order of the source; Python fixes no order for a set.\<close>

definition test2_validate_inputs :: "env \<Rightarrow> string \<Rightarrow> bool \<Rightarrow> path io" where
  "test2_validate_inputs w local_path is_image =
     (case resolve w (Path local_path) of
        Inl e \<Rightarrow> ([], Inl (Uncaught e))
      | Inr local_file_path \<Rightarrow>
          if \<not> exists w local_file_path then
            ([Log ERROR (''File not found: '' @ str local_file_path)], Inl (SystemExit 1))
          else if \<not> is_file w local_file_path then
            ([Log ERROR (''Not a file: '' @ str local_file_path)], Inl (SystemExit 1))
          else
            (let sfx = lower (suffix local_file_path) in
             if is_image then
               (if sfx \<notin> set SUPPORTED_IMAGE_EXTENSIONS then
                  ([Log ERROR (''Unsupported image format: '' @ sfx @ ''. Supported: ''
                       @ join '', '' SUPPORTED_IMAGE_EXTENSIONS)],
                   Inl (SystemExit 1))
                else ([], Inr local_file_path))
             else
               (if sfx \<noteq> ''.pdf'' then
                  ([Log WARNING ''The specified file does not have a .pdf extension.''],
                   Inr local_file_path)
                else ([], Inr local_file_path))))"

section \<open>Content types\<close>

text \<open>\<open>mimetypes.add_type(type, ext)\<close> enters the extension in the table.\<close>

definition add_type :: "string \<Rightarrow> string \<Rightarrow> (string \<rightharpoonup> string) \<Rightarrow> (string \<rightharpoonup> string)" where
  "add_type typ ext tm = tm(ext \<mapsto> typ)"

text \<open>
  Modelled from the spec: \<open>mimetypes.guess_type\<close> belongs to the Python standard library
  and is not part of the sources. The specification describes it as looking up a MIME
  type by extension in an extension-to-type table, with no type when no mapping exists.
  The extension is taken as the scripts take it in \<open>validate_inputs\<close>: the suffix of the
  path, in lower case. The second component, the encoding, is not used by the scripts.
  What the library does beyond this description is left out: it sets aside an encoding
  suffix such as \<open>.gz\<close> or \<open>.bz2\<close> before the lookup, reads a text with a URL scheme such
  as \<open>data:\<close> as a URL, and finds no extension in a name made of dots and one word.
\<close>

definition extension :: "string \<Rightarrow> string" where
  "extension url = lower (suffix (Path url))"

definition guess_type :: "(string \<rightharpoonup> string) \<Rightarrow> string \<Rightarrow> string option \<times> string option" where
  "guess_type tm url = (tm (extension url), None)"

text \<open>\<open>infer_content_type\<close>, the same in both scripts.\<close>

definition infer_content_type :: "env \<Rightarrow> path \<Rightarrow> string" where
  "infer_content_type w file_path =
     (case guess_type (types_map w) (str file_path) of
        (guessed_type, _) \<Rightarrow>
          (case truthy guessed_type of
             Some t \<Rightarrow> t
           | None \<Rightarrow> ''application/octet-stream''))"

section \<open>Upload\<close>

text \<open>\<open>upload_file_to_s3\<close> of \<open>test.py\<close>, which returns nothing. \<open>logger.exception\<close> writes
  its line at error level.\<close>

definition test_upload_file_to_s3 :: "env \<Rightarrow> path \<Rightarrow> string \<Rightarrow> string \<Rightarrow> unit io" where
  "test_upload_file_to_s3 w local_file_path bucket_name object_key =
     (case client w ''s3'' of
        Inl e \<Rightarrow> ([], Inl (Uncaught e))
      | Inr s3 \<Rightarrow>
          (let content_type = infer_content_type w local_file_path;
               info = Log INFO (''Uploading to S3 | bucket='' @ bucket_name @ '' key=''
                        @ object_key @ '' content_type='' @ content_type);
               extra_args = [(''ContentType'', content_type)];
               call = UploadFile (str local_file_path) bucket_name object_key extra_args
           in case s3 (str local_file_path) bucket_name object_key extra_args of
                Some e \<Rightarrow>
                  ([info, call, Log ERROR (''Upload failed: '' @ e)], Inl (SystemExit 1))
              | None \<Rightarrow>
                  ([info, call,
                    Log SUCCESS (''Upload complete: s3://'' @ bucket_name @ ''/'' @ object_key)],
                   Inr ())))"

text \<open>\<open>upload_file_to_s3\<close> of \<open>test2.py\<close>, which returns the location.\<close>

definition test2_upload_file_to_s3 :: "env \<Rightarrow> path \<Rightarrow> string \<Rightarrow> string \<Rightarrow> string io" where
  "test2_upload_file_to_s3 w local_file_path bucket_name object_key =
     (case client w ''s3'' of
        Inl e \<Rightarrow> ([], Inl (Uncaught e))
      | Inr s3 \<Rightarrow>
          (let content_type = infer_content_type w local_file_path;
               info = Log INFO (''Uploading to S3 | bucket='' @ bucket_name @ '' key=''
                        @ object_key @ '' content_type='' @ content_type);
               extra_args = [(''ContentType'', content_type)];
               call = UploadFile (str local_file_path) bucket_name object_key extra_args
           in case s3 (str local_file_path) bucket_name object_key extra_args of
                Some e \<Rightarrow>
                  ([info, call, Log ERROR (''Upload failed: '' @ e)], Inl (SystemExit 1))
              | None \<Rightarrow>
                  (let s3_path = ''s3://'' @ bucket_name @ ''/'' @ object_key
                   in ([info, call, Log SUCCESS (''Upload complete: '' @ s3_path)],
                       Inr s3_path))))"

section \<open>Entry points\<close>

text \<open>
  The parsed command line. \<open>--key\<close>, \<open>--bucket\<close> and \<open>--folder\<close> are \<open>None\<close> when the option
  is absent; \<open>argparse\<close> then puts the declared default in place of \<open>--folder\<close>.
  The fields are the attributes of \<open>args\<close>, with \<open>arg_\<close> in front.
\<close>

record args =
  arg_file :: string
  arg_key :: "string option"
  arg_bucket :: "string option"

record args2 = args +
  arg_folder :: "string option"
  arg_image :: bool

definition folder_default :: string where
  "folder_default = ''dummy_image''"

text \<open>\<open>a or b\<close> on values of type \<open>str | None\<close>.\<close>

definition py_or :: "string option \<Rightarrow> string option \<Rightarrow> string option" where
  "py_or a b = (case truthy a of Some s \<Rightarrow> Some s | None \<Rightarrow> b)"

definition config_line :: "env \<Rightarrow> string \<Rightarrow> event" where
  "config_line w bucket_name =
     Log INFO (''Using AWS configuration: region='' @ AWS_REGION w @ '' env='' @ ENVIRONMENT w
               @ '' bucket='' @ bucket_name)"

definition no_bucket_line :: event where
  "no_bucket_line =
     Log ERROR ''Bucket name is not configured. Set AWS_BUCKET_NAME in your .env or pass --bucket.''"

text \<open>\<open>main\<close> of \<open>test.py\<close>.\<close>

definition test_main :: "env \<Rightarrow> args \<Rightarrow> unit io" where
  "test_main w a =
     (case test_validate_inputs w (arg_file a) of
        (evs, Inl x) \<Rightarrow> (evs, Inl x)
      | (evs, Inr local_file_path) \<Rightarrow>
          (case truthy (py_or (arg_bucket a) (AWS_BUCKET_NAME w)) of
             None \<Rightarrow> (evs @ [no_bucket_line], Inl (SystemExit 1))
           | Some bucket_name \<Rightarrow>
               (let object_key = test_build_s3_key local_file_path (arg_key a) in
                case test_upload_file_to_s3 w local_file_path bucket_name object_key of
                  (evs', r) \<Rightarrow> (evs @ [config_line w bucket_name] @ evs', r))))"

text \<open>\<open>main\<close> of \<open>test2.py\<close>. Image mode is forced by \<open>--image\<close> or detected from the suffix
  of the path as it was typed.\<close>

definition image_info :: "string \<Rightarrow> path \<Rightarrow> string \<Rightarrow> event list" where
  "image_info object_key local_file_path bucket_name =
     [Log INFO (replicate 60 (CHR ''='')),
      Log INFO ''To test the /upload-image endpoint, use:'',
      Log INFO (''  file_path: \"'' @ object_key @ ''\"''),
      Log INFO (''  file_name: \"'' @ name local_file_path @ ''\"''),
      Log INFO (''  s3_bucket_name: \"'' @ bucket_name @ ''\"''),
      Log INFO (replicate 60 (CHR ''=''))]"

definition is_image :: "args2 \<Rightarrow> bool" where
  "is_image a =
     (let file_path = Path (arg_file a)
      in arg_image a \<or> lower (suffix file_path) \<in> set SUPPORTED_IMAGE_EXTENSIONS)"

definition test2_main :: "env \<Rightarrow> args2 \<Rightarrow> unit io" where
  "test2_main w a =
     (let args_folder = (case arg_folder a of None \<Rightarrow> folder_default | Some f \<Rightarrow> f);
          is_image = is_image a
      in case test2_validate_inputs w (arg_file a) is_image of
           (evs, Inl x) \<Rightarrow> (evs, Inl x)
         | (evs, Inr local_file_path) \<Rightarrow>
             (case truthy (py_or (arg_bucket a) (AWS_BUCKET_NAME w)) of
                None \<Rightarrow> (evs @ [no_bucket_line], Inl (SystemExit 1))
              | Some bucket_name \<Rightarrow>
                  (let object_key = test2_build_s3_key local_file_path (arg_key a) (Some args_folder) in
                   case test2_upload_file_to_s3 w local_file_path bucket_name object_key of
                     (evs', Inl x) \<Rightarrow> (evs @ [config_line w bucket_name] @ evs', Inl x)
                   | (evs', Inr s3_path) \<Rightarrow>
                       (evs @ [config_line w bucket_name] @ evs'
                          @ (if is_image then image_info object_key local_file_path bucket_name
                             else []),
                        Inr ()))))"

text \<open>The scripts as they are run: the \<open>__main__\<close> block enters its types in the table and
  calls \<open>main\<close>.\<close>

definition test_types :: "(string \<rightharpoonup> string) \<Rightarrow> (string \<rightharpoonup> string)" where
  "test_types tm = add_type ''application/pdf'' ''.pdf'' tm"

definition test2_types :: "(string \<rightharpoonup> string) \<Rightarrow> (string \<rightharpoonup> string)" where
  "test2_types tm =
     add_type ''image/bmp'' ''.bmp''
       (add_type ''image/webp'' ''.webp''
         (add_type ''image/gif'' ''.gif''
           (add_type ''image/jpeg'' ''.jpeg''
             (add_type ''image/jpeg'' ''.jpg''
               (add_type ''image/png'' ''.png''
                 (add_type ''application/pdf'' ''.pdf'' tm))))))"

definition test_script :: "env \<Rightarrow> args \<Rightarrow> unit io" where
  "test_script w a = test_main (w\<lparr>types_map := test_types (types_map w)\<rparr>) a"

definition test2_script :: "env \<Rightarrow> args2 \<Rightarrow> unit io" where
  "test2_script w a = test2_main (w\<lparr>types_map := test2_types (types_map w)\<rparr>) a"

section \<open>Notions used in the properties\<close>

text \<open>The path typed on the command line resolves to \<open>q\<close>, and \<open>q\<close> exists and is a regular
  file.\<close>

definition regular_file :: "env \<Rightarrow> string \<Rightarrow> path \<Rightarrow> bool" where
  "regular_file w local_path q =
     (resolve w (Path local_path) = Inr q \<and> exists w q \<and> is_file w q)"

text \<open>The extra arguments of the transfer of a file, and the location string of an
  object.\<close>

definition content_type_args :: "env \<Rightarrow> path \<Rightarrow> (string \<times> string) list" where
  "content_type_args w p = [(''ContentType'', infer_content_type w p)]"

definition location :: "string \<Rightarrow> string \<Rightarrow> string" where
  "location b k = ''s3://'' @ b @ ''/'' @ k"

text \<open>
  A world for concrete runs: the working directory is \<open>/data\<close>, every path below it is a
  regular file, the type table of the platform is empty, no bucket is configured and
  every transfer returns. In \<open>failing_world\<close> every transfer raises.
\<close>

definition sample_world :: env where
  "sample_world =
     \<lparr>AWS_BUCKET_NAME = None, AWS_REGION = ''eu-west-1'', ENVIRONMENT = ''dev'',
      resolve = (\<lambda>p. Inr (PosixPath ''/'' (''data'' # parts p))),
      exists = (\<lambda>p. True), is_file = (\<lambda>p. True),
      types_map = Map.empty,
      client = (\<lambda>service. Inr (\<lambda>f b k x. None))\<rparr>"

definition failing_world :: env where
  "failing_world = sample_world\<lparr>client := (\<lambda>service. Inr (\<lambda>f b k x. Some ''timed out''))\<rparr>"

section \<open>Facts about stripping\<close>

lemma rev_split_tail:
  "xs = rev (dropWhile P (rev xs)) @ rev (takeWhile P (rev xs))"
proof -
  have "rev (takeWhile P (rev xs) @ dropWhile P (rev xs)) = xs"
    by (simp only: takeWhile_dropWhile_id rev_rev_ident)
  then show ?thesis by (simp only: rev_append)
qed

text \<open>What \<open>strip\<close> removes are characters of the given set, at both ends.\<close>

lemma py_strip_decomp:
  "\<exists>a b. s = a @ py_strip chars s @ b \<and> set a \<subseteq> set chars \<and> set b \<subseteq> set chars"
proof -
  let ?P = "\<lambda>c. c \<in> set chars"
  let ?g = "dropWhile ?P s"
  let ?a = "takeWhile ?P s"
  let ?b = "rev (takeWhile ?P (rev ?g))"
  have g: "?g = py_strip chars s @ ?b"
    unfolding py_strip_def by (rule rev_split_tail)
  have "s = ?a @ ?g" by simp
  with g have "s = ?a @ py_strip chars s @ ?b" by simp
  moreover have "set ?a \<subseteq> set chars" by (auto dest: set_takeWhileD)
  moreover have "set ?b \<subseteq> set chars" by (auto dest: set_takeWhileD)
  ultimately show ?thesis by blast
qed

text \<open>What \<open>strip\<close> leaves neither begins nor ends with a character of the set.\<close>

lemma py_strip_ends:
  assumes "py_strip chars s \<noteq> []"
  shows "hd (py_strip chars s) \<notin> set chars \<and> last (py_strip chars s) \<notin> set chars"
proof -
  define P where "P = (\<lambda>c. c \<in> set chars)"
  define g where "g = dropWhile P s"
  define d where "d = dropWhile P (rev g)"
  have st: "py_strip chars s = rev d" by (simp add: py_strip_def d_def g_def P_def)
  with assms have dne: "d \<noteq> []" by simp
  then have "\<not> P (hd d)" unfolding d_def by (rule hd_dropWhile)
  then have l: "\<not> P (last (rev d))" using dne by (simp add: last_rev)
  have g: "g = rev d @ rev (takeWhile P (rev g))" unfolding d_def by (rule rev_split_tail)
  have gne: "g \<noteq> []"
  proof
    assume "g = []"
    then have "d = []" by (simp add: d_def)
    with dne show False by simp
  qed
  then have "\<not> P (hd g)" unfolding g_def by (rule hd_dropWhile)
  moreover have "hd g = hd (rev d)" using g dne by (metis hd_append2 rev_is_Nil_conv)
  ultimately have "\<not> P (hd (rev d))" by simp
  with l st show ?thesis by (simp add: P_def)
qed

section \<open>Facts about splitting and keys\<close>

lemma split_nonempty: "split c s \<noteq> []"
  by (induction s) (auto split: list.splits)

lemma split_no_sep: "x \<in> set (split c s) \<Longrightarrow> c \<notin> set x"
proof (induction s arbitrary: x)
  case Nil
  then show ?case by simp
next
  case (Cons d s)
  show ?case
  proof (cases "d = c")
    case True
    with Cons show ?thesis by auto
  next
    case False
    obtain w ws where sp: "split c s = w # ws"
      using split_nonempty[of c s] by (cases "split c s") auto
    with False Cons.prems have "x = d # w \<or> x \<in> set ws" by auto
    then show ?thesis
    proof
      assume "x = d # w"
      moreover have "c \<notin> set w" using Cons.IH[of w] sp by simp
      ultimately show ?thesis using False by auto
    next
      assume "x \<in> set ws"
      then show ?thesis using Cons.IH[of x] sp by simp
    qed
  qed
qed

text \<open>The name of a path built by \<open>Path\<close> holds no slash.\<close>

lemma name_Path_no_slash: "CHR ''/'' \<notin> set (name (Path s))"
proof (cases "parts (Path s) = []")
  case True
  then show ?thesis by (simp add: name_def)
next
  case False
  then have "last (parts (Path s)) \<in> set (parts (Path s))" by simp
  then have "last (parts (Path s)) \<in> set (split (CHR ''/'') s)"
    by (simp add: Path_def Let_def)
  then show ?thesis using False split_no_sep by (simp add: name_def)
qed

lemma startswith_slash: "startswith s ''/'' = (s \<noteq> [] \<and> hd s = CHR ''/'')"
  by (cases s) (simp_all add: startswith_def)

text \<open>
  Where the key does not begin with a slash: for a non-empty explicit key that does not
  begin with two slashes; for a key derived from the name alone; and for a key derived
  with a folder of which something is left once its slashes are stripped.
\<close>

lemma explicit_key_no_leading_slash:
  assumes "k \<noteq> []" and "\<not> startswith k ''//''"
  shows "\<not> startswith (test_build_s3_key p (Some k)) ''/''"
    and "\<not> startswith (test2_build_s3_key p (Some k) fo) ''/''"
proof -
  from assms(1) obtain c r where k: "k = c # r" by (cases k) auto
  have "\<not> startswith (if c = CHR ''/'' then r else c # r) ''/''"
    using assms(2) k by (cases r) (auto simp: startswith_def)
  moreover have "test_build_s3_key p (Some k) = (if c = CHR ''/'' then r else c # r)"
    and "test2_build_s3_key p (Some k) fo = (if c = CHR ''/'' then r else c # r)"
    by (simp_all add: k test_build_s3_key_def test2_build_s3_key_def startswith_def)
  ultimately show "\<not> startswith (test_build_s3_key p (Some k)) ''/''"
    and "\<not> startswith (test2_build_s3_key p (Some k) fo) ''/''"
    by simp_all
qed

lemma derived_key_no_leading_slash:
  assumes "truthy ko = None"
  shows "\<not> startswith (test_build_s3_key (Path s) ko) ''/''"
    and "\<not> startswith (test2_build_s3_key (Path s) ko None) ''/''"
    and "py_strip ''/'' f \<noteq> [] \<Longrightarrow> \<not> startswith (test2_build_s3_key p ko (Some f)) ''/''"
proof -
  have n: "\<not> startswith (name (Path s)) ''/''"
    using name_Path_no_slash[of s] by (cases "name (Path s)") (auto simp: startswith_slash)
  show "\<not> startswith (test_build_s3_key (Path s) ko) ''/''"
    using assms n by (simp add: test_build_s3_key_def)
  show "\<not> startswith (test2_build_s3_key (Path s) ko None) ''/''"
    using assms n by (simp add: test2_build_s3_key_def)
  assume ne: "py_strip ''/'' f \<noteq> []"
  then have "f \<noteq> []" by (auto simp: py_strip_def)
  moreover have "hd (py_strip ''/'' f) \<noteq> CHR ''/''" using py_strip_ends[OF ne] by simp
  ultimately show "\<not> startswith (test2_build_s3_key p ko (Some f)) ''/''"
    using assms ne by (simp add: test2_build_s3_key_def startswith_slash)
qed

section \<open>Properties of the destination key\<close>

text \<open>
  Claim C1: the key returned by \<open>build_s3_key\<close> never begins with \<open>/\<close>, also for explicit
  keys that start with repeated slashes and for folders made of slashes only.

  The code does not keep this. Its comments state the aim (the leading slash of the key is
  normalised, the folder has no leading or trailing slash), but only one slash is taken
  off an explicit key, and a folder is tested for emptiness before it is stripped, not
  after. With \<open>--key //a\<close> both scripts return \<open>/a\<close>, and with \<open>--folder /\<close> the second
  script returns \<open>/x.png\<close>.
\<close>

theorem build_s3_key_leading_slash_kept:
  "test_build_s3_key (Path ''x.png'') (Some ''//a'') = ''/a''
   \<and> test2_build_s3_key (Path ''x.png'') (Some ''//a'') (Some ''dummy_image'') = ''/a''
   \<and> test2_build_s3_key (Path ''x.png'') None (Some ''/'') = ''/x.png''"
  by (simp add: test_build_s3_key_def test2_build_s3_key_def startswith_def py_strip_def
      Path_def name_def)

text \<open>
  Claim C3, as amended: for every non-empty explicit key the result of \<open>build_s3_key\<close> is
  the same whatever the path and the folder are. The empty string counts as no key at
  all (last two conjuncts), so the claim does not extend to it.
\<close>

theorem build_s3_key_explicit_key_alone:
  assumes "k \<noteq> []"
  shows "test_build_s3_key p (Some k) = test_build_s3_key p' (Some k)
         \<and> test2_build_s3_key p (Some k) f = test2_build_s3_key p' (Some k) f'
         \<and> test_build_s3_key p (Some []) = test_build_s3_key p None
         \<and> test2_build_s3_key p (Some []) f = test2_build_s3_key p None f"
  using assms by (simp add: test_build_s3_key_def test2_build_s3_key_def)

theorem build_s3_key_explicit_key_alone_witness:
  "''a/b.pdf'' \<noteq> []
   \<and> test_build_s3_key (Path ''x.png'') (Some ''a/b.pdf'')
       = test_build_s3_key (Path ''/tmp/y.pdf'') (Some ''a/b.pdf'')
   \<and> test2_build_s3_key (Path ''x.png'') (Some ''a/b.pdf'') (Some ''docs'')
       = test2_build_s3_key (Path ''/tmp/y.pdf'') (Some ''a/b.pdf'') None"
  using build_s3_key_explicit_key_alone
    [of "''a/b.pdf''" "Path ''x.png''" "Path ''/tmp/y.pdf''" "Some ''docs''" None]
  by simp

text \<open>With the empty string as explicit key the result follows the file name and the
  folder.\<close>

theorem build_s3_key_empty_key_derives:
  "test_build_s3_key (Path ''a.pdf'') (Some []) \<noteq> test_build_s3_key (Path ''b.pdf'') (Some [])
   \<and> test2_build_s3_key (Path ''a.pdf'') (Some []) (Some ''x'')
       \<noteq> test2_build_s3_key (Path ''a.pdf'') (Some []) (Some ''y'')"
  by (simp add: test_build_s3_key_def test2_build_s3_key_def py_strip_def Path_def name_def)

text \<open>
  Claim C4: for a non-empty explicit key, written \<open>c # r\<close>, \<open>build_s3_key\<close> returns the key
  without its first character when that character is \<open>/\<close> and the whole key otherwise.
  Nothing else of the key changes: further slashes at the front, inside or at the end
  stay where they are.
\<close>

theorem build_s3_key_strips_one_slash:
  "test_build_s3_key p (Some (c # r)) = (if c = CHR ''/'' then r else c # r)
   \<and> test2_build_s3_key p (Some (c # r)) fo = (if c = CHR ''/'' then r else c # r)"
  by (simp add: test_build_s3_key_def test2_build_s3_key_def startswith_def)

text \<open>
  Claim C5: with no explicit key, or an empty one, and a non-empty folder \<open>f\<close>, the key of
  \<open>test2.py\<close> is \<open>s @ ''/'' @ name p\<close>, where \<open>s\<close> is what is left of \<open>f\<close> once the
  slashes at its two ends are taken away; with an empty or absent folder the key is the
  bare name of the file, as it always is in \<open>test.py\<close>, which has no folder.
\<close>

theorem build_s3_key_folder_and_name:
  assumes "k = None \<or> k = Some []"
  shows "(f \<noteq> [] \<longrightarrow>
           (\<exists>a s b. f = a @ s @ b \<and> set a \<subseteq> {CHR ''/''} \<and> set b \<subseteq> {CHR ''/''}
              \<and> (s = [] \<or> (hd s \<noteq> CHR ''/'' \<and> last s \<noteq> CHR ''/''))
              \<and> test2_build_s3_key p k (Some f) = s @ ''/'' @ name p))
         \<and> test2_build_s3_key p k (Some []) = name p
         \<and> test2_build_s3_key p k None = name p
         \<and> test_build_s3_key p k = name p"
proof -
  from assms have t: "truthy k = None" by auto
  have "\<exists>a s b. f = a @ s @ b \<and> set a \<subseteq> {CHR ''/''} \<and> set b \<subseteq> {CHR ''/''}
              \<and> (s = [] \<or> (hd s \<noteq> CHR ''/'' \<and> last s \<noteq> CHR ''/''))
              \<and> test2_build_s3_key p k (Some f) = s @ ''/'' @ name p" if "f \<noteq> []"
  proof -
    from py_strip_decomp[of f "''/''"] obtain a b where
      ab: "f = a @ py_strip ''/'' f @ b" "set a \<subseteq> set ''/''" "set b \<subseteq> set ''/''"
      by blast
    have e: "py_strip ''/'' f = []
             \<or> (hd (py_strip ''/'' f) \<noteq> CHR ''/'' \<and> last (py_strip ''/'' f) \<noteq> CHR ''/'')"
      using py_strip_ends[of "''/''" f] by auto
    have r: "test2_build_s3_key p k (Some f) = py_strip ''/'' f @ ''/'' @ name p"
      using t that by (simp add: test2_build_s3_key_def)
    from ab e r show ?thesis
      by (intro exI[of _ a] exI[of _ "py_strip ''/'' f"] exI[of _ b]) simp
  qed
  moreover have "test2_build_s3_key p k (Some []) = name p"
    using t by (simp add: test2_build_s3_key_def)
  moreover have "test2_build_s3_key p k None = name p"
    using t by (simp add: test2_build_s3_key_def)
  moreover have "test_build_s3_key p k = name p"
    using t by (simp add: test_build_s3_key_def)
  ultimately show ?thesis by blast
qed

theorem build_s3_key_folder_and_name_witness:
  "test2_build_s3_key (Path ''x.png'') None (Some ''docs/'') = ''docs/x.png''
   \<and> test2_build_s3_key (Path ''x.png'') None None = ''x.png''"
proof -
  note build_s3_key_folder_and_name[of None "''docs/''" "Path ''x.png''"]
  then have "test2_build_s3_key (Path ''x.png'') None None = name (Path ''x.png'')"
    by simp
  moreover have "name (Path ''x.png'') = ''x.png''"
    by (simp add: Path_def name_def)
  moreover have "test2_build_s3_key (Path ''x.png'') None (Some ''docs/'') = ''docs/x.png''"
    by (simp add: test2_build_s3_key_def py_strip_def Path_def name_def)
  ultimately show ?thesis by simp
qed

section \<open>Facts about validation, upload and the entry points\<close>

lemma lower_supported: "map lower SUPPORTED_IMAGE_EXTENSIONS = SUPPORTED_IMAGE_EXTENSIONS"
  by code_simp

lemma lower_pdf: "lower ''.pdf'' = ''.pdf''"
  by code_simp

lemma test2_validate_image:
  assumes "regular_file w local_path q"
  shows "test2_validate_inputs w local_path True =
     (if lower (suffix q) \<in> set SUPPORTED_IMAGE_EXTENSIONS then ([], Inr q)
      else ([Log ERROR (''Unsupported image format: '' @ lower (suffix q) @ ''. Supported: ''
                       @ join '', '' SUPPORTED_IMAGE_EXTENSIONS)], Inl (SystemExit 1)))"
  using assms by (simp add: regular_file_def test2_validate_inputs_def)

lemma test2_validate_document:
  assumes "regular_file w local_path q"
  shows "test2_validate_inputs w local_path False =
     (if lower (suffix q) \<noteq> ''.pdf''
      then ([Log WARNING ''The specified file does not have a .pdf extension.''], Inr q)
      else ([], Inr q))"
  using assms by (simp add: regular_file_def test2_validate_inputs_def)

lemma test_validate_document:
  assumes "regular_file w local_path q"
  shows "test_validate_inputs w local_path =
     (if lower (suffix q) \<noteq> ''.pdf''
      then ([Log WARNING ''The specified file does not have a .pdf extension.''], Inr q)
      else ([], Inr q))"
  using assms by (simp add: regular_file_def test_validate_inputs_def)

text \<open>
  Claim C6: in image mode, for a path that resolves to an existing regular file \<open>q\<close>,
  \<open>validate_inputs\<close> of \<open>test2.py\<close> returns \<open>q\<close>, logging nothing, when the extension of \<open>q\<close>
  is one of \<open>.png .jpg .jpeg .gif .webp .bmp\<close>; otherwise it ends the process with exit
  status 1, and a run of the script in image mode on that path asks for no transfer. The
  extension is the suffix of the resolved path as the code compares it, in lower case.
\<close>

theorem image_mode_validation:
  assumes "regular_file w local_path q"
  shows "(lower (suffix q) \<in> set SUPPORTED_IMAGE_EXTENSIONS \<longrightarrow>
            test2_validate_inputs w local_path True = ([], Inr q))
       \<and> (lower (suffix q) \<notin> set SUPPORTED_IMAGE_EXTENSIONS \<longrightarrow>
            snd (test2_validate_inputs w local_path True) = Inl (SystemExit 1)
            \<and> exit_status (test2_validate_inputs w local_path True) = 1
            \<and> (\<forall>a. arg_file a = local_path \<and> is_image a \<longrightarrow>
                  snd (test2_script w a) = Inl (SystemExit 1)
                  \<and> uploads (fst (test2_script w a)) = []))"
proof -
  have r: "regular_file (w\<lparr>types_map := test2_types (types_map w)\<rparr>) local_path q"
    using assms by (simp add: regular_file_def)
  show ?thesis
    using test2_validate_image[OF assms] test2_validate_image[OF r]
    by (simp add: test2_script_def test2_main_def)
qed


lemma upload2_raises:
  assumes "client w ''s3'' = Inr s3" and "s3 (str p) b k (content_type_args w p) = Some e"
  shows "test2_upload_file_to_s3 w p b k =
    ([Log INFO (''Uploading to S3 | bucket='' @ b @ '' key='' @ k @ '' content_type='' @ infer_content_type w p),
      UploadFile (str p) b k (content_type_args w p),
      Log ERROR (''Upload failed: '' @ e)], Inl (SystemExit 1))"
  using assms by (simp add: Let_def test2_upload_file_to_s3_def content_type_args_def)

lemma upload2_returns:
  assumes "client w ''s3'' = Inr s3" and "s3 (str p) b k (content_type_args w p) = None"
  shows "test2_upload_file_to_s3 w p b k =
    ([Log INFO (''Uploading to S3 | bucket='' @ b @ '' key='' @ k @ '' content_type='' @ infer_content_type w p),
      UploadFile (str p) b k (content_type_args w p),
      Log SUCCESS (''Upload complete: '' @ location b k)], Inr (location b k))"
  using assms by (simp add: Let_def test2_upload_file_to_s3_def content_type_args_def location_def)

lemma upload1_raises:
  assumes "client w ''s3'' = Inr s3" and "s3 (str p) b k (content_type_args w p) = Some e"
  shows "test_upload_file_to_s3 w p b k =
    ([Log INFO (''Uploading to S3 | bucket='' @ b @ '' key='' @ k @ '' content_type='' @ infer_content_type w p),
      UploadFile (str p) b k (content_type_args w p),
      Log ERROR (''Upload failed: '' @ e)], Inl (SystemExit 1))"
  using assms by (simp add: Let_def test_upload_file_to_s3_def content_type_args_def)

lemma upload1_returns:
  assumes "client w ''s3'' = Inr s3" and "s3 (str p) b k (content_type_args w p) = None"
  shows "test_upload_file_to_s3 w p b k =
    ([Log INFO (''Uploading to S3 | bucket='' @ b @ '' key='' @ k @ '' content_type='' @ infer_content_type w p),
      UploadFile (str p) b k (content_type_args w p),
      Log SUCCESS (''Upload complete: '' @ location b k)], Inr ())"
  using assms by (simp add: Let_def test_upload_file_to_s3_def content_type_args_def location_def)

text \<open>
  Claim C8: when the transfer raises an exception \<open>e\<close>, \<open>upload_file_to_s3\<close> logs
  \<open>Upload failed: e\<close> at error level and exits with status 1, having asked for the
  transfer once; when the transfer returns, it logs \<open>Upload complete:\<close> followed by the
  location \<open>s3://bucket/key\<close>, logs no error, and in \<open>test2.py\<close> returns that location.
\<close>

theorem upload_outcomes:
  assumes "client w ''s3'' = Inr s3"
  shows "(s3 (str p) b k (content_type_args w p) = Some e \<longrightarrow>
            snd (test_upload_file_to_s3 w p b k) = Inl (SystemExit 1)
          \<and> snd (test2_upload_file_to_s3 w p b k) = Inl (SystemExit 1)
          \<and> logged ERROR (fst (test_upload_file_to_s3 w p b k)) = [''Upload failed: '' @ e]
          \<and> logged ERROR (fst (test2_upload_file_to_s3 w p b k)) = [''Upload failed: '' @ e]
          \<and> uploads (fst (test_upload_file_to_s3 w p b k)) = [UploadFile (str p) b k (content_type_args w p)]
          \<and> uploads (fst (test2_upload_file_to_s3 w p b k)) = [UploadFile (str p) b k (content_type_args w p)]
          \<and> exit_status (test_upload_file_to_s3 w p b k) \<noteq> 0
          \<and> exit_status (test2_upload_file_to_s3 w p b k) \<noteq> 0)
       \<and> (s3 (str p) b k (content_type_args w p) = None \<longrightarrow>
            snd (test_upload_file_to_s3 w p b k) = Inr ()
          \<and> snd (test2_upload_file_to_s3 w p b k) = Inr (location b k)
          \<and> logged SUCCESS (fst (test_upload_file_to_s3 w p b k)) = [''Upload complete: '' @ location b k]
          \<and> logged SUCCESS (fst (test2_upload_file_to_s3 w p b k)) = [''Upload complete: '' @ location b k]
          \<and> logged ERROR (fst (test_upload_file_to_s3 w p b k)) = []
          \<and> logged ERROR (fst (test2_upload_file_to_s3 w p b k)) = []
          \<and> uploads (fst (test_upload_file_to_s3 w p b k)) = [UploadFile (str p) b k (content_type_args w p)]
          \<and> uploads (fst (test2_upload_file_to_s3 w p b k)) = [UploadFile (str p) b k (content_type_args w p)])"
proof (intro conjI impI)
  assume e: "s3 (str p) b k (content_type_args w p) = Some e"
  note u1 = upload1_raises[OF assms e] and u2 = upload2_raises[OF assms e]
  show "snd (test_upload_file_to_s3 w p b k) = Inl (SystemExit 1)" by (simp add: u1)
  show "snd (test2_upload_file_to_s3 w p b k) = Inl (SystemExit 1)" by (simp add: u2)
  show "logged ERROR (fst (test_upload_file_to_s3 w p b k)) = [''Upload failed: '' @ e]" by (simp add: u1)
  show "logged ERROR (fst (test2_upload_file_to_s3 w p b k)) = [''Upload failed: '' @ e]" by (simp add: u2)
  show "uploads (fst (test_upload_file_to_s3 w p b k)) = [UploadFile (str p) b k (content_type_args w p)]" by (simp add: u1)
  show "uploads (fst (test2_upload_file_to_s3 w p b k)) = [UploadFile (str p) b k (content_type_args w p)]" by (simp add: u2)
  show "exit_status (test_upload_file_to_s3 w p b k) \<noteq> 0" by (simp add: u1)
  show "exit_status (test2_upload_file_to_s3 w p b k) \<noteq> 0" by (simp add: u2)
next
  assume e: "s3 (str p) b k (content_type_args w p) = None"
  note u1 = upload1_returns[OF assms e] and u2 = upload2_returns[OF assms e]
  show "snd (test_upload_file_to_s3 w p b k) = Inr ()" by (simp add: u1)
  show "snd (test2_upload_file_to_s3 w p b k) = Inr (location b k)" by (simp add: u2)
  show "logged SUCCESS (fst (test_upload_file_to_s3 w p b k)) = [''Upload complete: '' @ location b k]" by (simp add: u1)
  show "logged SUCCESS (fst (test2_upload_file_to_s3 w p b k)) = [''Upload complete: '' @ location b k]" by (simp add: u2)
  show "logged ERROR (fst (test_upload_file_to_s3 w p b k)) = []" by (simp add: u1)
  show "logged ERROR (fst (test2_upload_file_to_s3 w p b k)) = []" by (simp add: u2)
  show "uploads (fst (test_upload_file_to_s3 w p b k)) = [UploadFile (str p) b k (content_type_args w p)]" by (simp add: u1)
  show "uploads (fst (test2_upload_file_to_s3 w p b k)) = [UploadFile (str p) b k (content_type_args w p)]" by (simp add: u2)
qed

text \<open>
  Claim C10: the extension checks ignore letter case. For a path that resolves to an
  existing regular file \<open>q\<close>: when the suffix of \<open>q\<close> equals an accepted image extension up
  to letter case, image-mode validation returns \<open>q\<close>; when it equals \<open>.pdf\<close> up to letter
  case, document mode returns \<open>q\<close> and logs nothing, in both scripts.
\<close>

theorem extension_checks_ignore_case:
  assumes "regular_file w local_path q"
  shows "(\<forall>e \<in> set SUPPORTED_IMAGE_EXTENSIONS. lower (suffix q) = lower e \<longrightarrow>
            test2_validate_inputs w local_path True = ([], Inr q))
       \<and> (lower (suffix q) = lower ''.pdf'' \<longrightarrow>
            test_validate_inputs w local_path = ([], Inr q)
            \<and> test2_validate_inputs w local_path False = ([], Inr q))"
proof -
  have "lower e = e" if "e \<in> set SUPPORTED_IMAGE_EXTENSIONS" for e
  proof -
    from that have "lower e \<in> set (map lower SUPPORTED_IMAGE_EXTENSIONS)" by simp
    from that obtain i where "i < length SUPPORTED_IMAGE_EXTENSIONS" "SUPPORTED_IMAGE_EXTENSIONS ! i = e"
      by (auto simp: in_set_conv_nth)
    then have "map lower SUPPORTED_IMAGE_EXTENSIONS ! i = lower e" by simp
    with lower_supported \<open>SUPPORTED_IMAGE_EXTENSIONS ! i = e\<close> show ?thesis by simp
  qed
  then show ?thesis
    using test2_validate_image[OF assms] test2_validate_document[OF assms]
      test_validate_document[OF assms] lower_pdf
    by auto
qed


lemma uploads_append: "uploads (xs @ ys) = uploads xs @ uploads ys"
proof (induction xs)
  case Nil
  show ?case by simp
next
  case (Cons x xs)
  then show ?case by (cases x) simp_all
qed

lemma logged_append: "logged l (xs @ ys) = logged l xs @ logged l ys"
proof (induction xs)
  case Nil
  show ?case by simp
next
  case (Cons x xs)
  then show ?case by (cases x) simp_all
qed

lemma test_main_runs:
  assumes "regular_file w (arg_file a) q"
    and "truthy (py_or (arg_bucket a) (AWS_BUCKET_NAME w)) = Some b"
  shows "test_main w a =
     (fst (test_validate_inputs w (arg_file a)) @ [config_line w b]
        @ fst (test_upload_file_to_s3 w q b (test_build_s3_key q (arg_key a))),
      snd (test_upload_file_to_s3 w q b (test_build_s3_key q (arg_key a))))"
  using assms test_validate_document[OF assms(1)]
  by (simp add: test_main_def split: prod.splits)

lemma test2_main_runs:
  assumes "regular_file w (arg_file a) q"
    and "\<not> is_image a"
    and "truthy (py_or (arg_bucket a) (AWS_BUCKET_NAME w)) = Some b"
    and "fo = (case arg_folder a of None \<Rightarrow> folder_default | Some f \<Rightarrow> f)"
  shows "fst (test2_main w a) =
      fst (test2_validate_inputs w (arg_file a) False) @ [config_line w b]
        @ fst (test2_upload_file_to_s3 w q b (test2_build_s3_key q (arg_key a) (Some fo)))
    \<and> snd (test2_main w a) =
      (case snd (test2_upload_file_to_s3 w q b (test2_build_s3_key q (arg_key a) (Some fo))) of
         Inl x \<Rightarrow> Inl x | Inr v \<Rightarrow> Inr ())"
  using assms test2_validate_document[OF assms(1)]
  by (simp add: test2_main_def split: prod.splits sum.splits)

lemma validate_no_uploads:
  "uploads (fst (test_validate_inputs w f)) = []"
  "uploads (fst (test2_validate_inputs w f i)) = []"
  by (simp_all add: test_validate_inputs_def test2_validate_inputs_def Let_def split: sum.splits)

lemma validate_no_success:
  "logged SUCCESS (fst (test_validate_inputs w f)) = []"
  "logged SUCCESS (fst (test2_validate_inputs w f i)) = []"
  by (simp_all add: test_validate_inputs_def test2_validate_inputs_def Let_def split: sum.splits)

lemma config_line_simps:
  "uploads (config_line w b # evs) = uploads evs"
  "logged SUCCESS (config_line w b # evs) = logged SUCCESS evs"
  by (simp_all add: config_line_def)


lemma upload_events:
  assumes "client w ''s3'' = Inr s3"
  shows "uploads (fst (test_upload_file_to_s3 w p b k)) = [UploadFile (str p) b k (content_type_args w p)]"
    and "uploads (fst (test2_upload_file_to_s3 w p b k)) = [UploadFile (str p) b k (content_type_args w p)]"
  using assms
  by (simp_all add: Let_def test_upload_file_to_s3_def test2_upload_file_to_s3_def
      content_type_args_def split: option.splits)

lemma regular_file_types:
  "regular_file (w\<lparr>types_map := tm\<rparr>) f q = regular_file w f q"
  by (simp add: regular_file_def)

text \<open>
  Claim C7: in document mode, for a path that resolves to an existing regular file \<open>q\<close>
  whose extension (in lower case) is not \<open>.pdf\<close>, \<open>validate_inputs\<close> of both scripts logs
  one warning and returns \<open>q\<close>; a run with a bucket and an S3 client then goes on to ask
  for exactly one transfer.
\<close>

theorem document_mode_warning:
  assumes "regular_file w local_path q" and "lower (suffix q) \<noteq> ''.pdf''"
  shows "test_validate_inputs w local_path =
           ([Log WARNING ''The specified file does not have a .pdf extension.''], Inr q)
       \<and> test2_validate_inputs w local_path False =
           ([Log WARNING ''The specified file does not have a .pdf extension.''], Inr q)
       \<and> (\<forall>a b s3. arg_file a = local_path
              \<and> truthy (py_or (arg_bucket a) (AWS_BUCKET_NAME w)) = Some b
              \<and> client w ''s3'' = Inr s3 \<longrightarrow>
            length (uploads (fst (test_script w a))) = 1)
       \<and> (\<forall>a b s3. arg_file a = local_path \<and> \<not> is_image a
              \<and> truthy (py_or (arg_bucket a) (AWS_BUCKET_NAME w)) = Some b
              \<and> client w ''s3'' = Inr s3 \<longrightarrow>
            length (uploads (fst (test2_script w a))) = 1)"
proof (intro conjI allI impI)
  show "test_validate_inputs w local_path =
           ([Log WARNING ''The specified file does not have a .pdf extension.''], Inr q)"
    using test_validate_document[OF assms(1)] assms(2) by simp
  show "test2_validate_inputs w local_path False =
           ([Log WARNING ''The specified file does not have a .pdf extension.''], Inr q)"
    using test2_validate_document[OF assms(1)] assms(2) by simp
next
  fix a :: args and b s3
  assume h: "arg_file a = local_path
              \<and> truthy (py_or (arg_bucket a) (AWS_BUCKET_NAME w)) = Some b
              \<and> client w ''s3'' = Inr s3"
  let ?w = "w\<lparr>types_map := test_types (types_map w)\<rparr>"
  have r: "regular_file ?w (arg_file a) q" using assms(1) h by (simp add: regular_file_types)
  have b: "truthy (py_or (arg_bucket a) (AWS_BUCKET_NAME ?w)) = Some b" using h by simp
  have c: "client ?w ''s3'' = Inr s3" using h by simp
  show "length (uploads (fst (test_script w a))) = 1"
    unfolding test_script_def test_main_runs[OF r b]
    by (simp add: uploads_append validate_no_uploads config_line_simps upload_events[OF c])
next
  fix a :: args2 and b s3
  assume h: "arg_file a = local_path \<and> \<not> is_image a
              \<and> truthy (py_or (arg_bucket a) (AWS_BUCKET_NAME w)) = Some b
              \<and> client w ''s3'' = Inr s3"
  let ?w = "w\<lparr>types_map := test2_types (types_map w)\<rparr>"
  have r: "regular_file ?w (arg_file a) q" using assms(1) h by (simp add: regular_file_types)
  have b: "truthy (py_or (arg_bucket a) (AWS_BUCKET_NAME ?w)) = Some b" using h by simp
  have c: "client ?w ''s3'' = Inr s3" using h by simp
  have i: "\<not> is_image a" using h by simp
  show "length (uploads (fst (test2_script w a))) = 1"
    unfolding test2_script_def
    using test2_main_runs[OF r i b refl]
    by (simp add: uploads_append validate_no_uploads config_line_simps upload_events[OF c])
qed


lemma py_or_override: "truthy bo = Some b \<Longrightarrow> truthy (py_or bo d) = Some b"
  by (cases bo) (auto simp: py_or_def split: if_splits)

lemma pdf_not_image: "extension f = ''.pdf'' \<Longrightarrow>
   \<not> is_image \<lparr>arg_file = f, arg_key = ko, arg_bucket = bo, arg_folder = fo, arg_image = False\<rparr>"
  by (simp add: is_image_def extension_def SUPPORTED_IMAGE_EXTENSIONS_def)

lemma build_key_defaults:
  assumes "truthy ko = None"
  shows "test_build_s3_key q ko = name q"
    and "test2_build_s3_key q ko (Some []) = name q"
    and "test2_build_s3_key q ko (Some folder_default) = ''dummy_image/'' @ name q"
  using assms
  by (simp_all add: test_build_s3_key_def test2_build_s3_key_def folder_default_def py_strip_def)

lemma build_key_folder:
  assumes "truthy ko = None"
  shows "test2_build_s3_key q ko (Some fd)
           = (if fd = [] then name q else py_strip ''/'' fd @ ''/'' @ name q)"
  using assms by (simp add: test2_build_s3_key_def)

lemma folder_key_differs: "py_strip ''/'' fd @ ''/'' @ nm \<noteq> nm"
proof
  assume "py_strip ''/'' fd @ ''/'' @ nm = nm"
  then have "length (py_strip ''/'' fd @ ''/'' @ nm) = length nm" by simp
  then show False by simp
qed

lemma test2_run_events:
  assumes "regular_file w f q" and "truthy bo = Some b" and "truthy ko = None"
    and "client w ''s3'' = Inr s3" and "extension f = ''.pdf''"
    and "fd = (case fo of None \<Rightarrow> ''dummy_image'' | Some x \<Rightarrow> x)"
    and "K = (if fd = [] then name q else py_strip ''/'' fd @ ''/'' @ name q)"
  shows "uploads (fst (test2_script w \<lparr>arg_file = f, arg_key = ko, arg_bucket = bo,
                                          arg_folder = fo, arg_image = False\<rparr>))
           = [UploadFile (str q) b K
                (content_type_args (w\<lparr>types_map := test2_types (types_map w)\<rparr>) q)]"
    and "s3 (str q) b K
             (content_type_args (w\<lparr>types_map := test2_types (types_map w)\<rparr>) q) = None \<Longrightarrow>
         logged SUCCESS (fst (test2_script w \<lparr>arg_file = f, arg_key = ko, arg_bucket = bo,
                                          arg_folder = fo, arg_image = False\<rparr>))
           = [''Upload complete: '' @ location b K]"
    and "s3 (str q) b K
             (content_type_args (w\<lparr>types_map := test2_types (types_map w)\<rparr>) q) = None \<Longrightarrow>
         snd (test2_script w \<lparr>arg_file = f, arg_key = ko, arg_bucket = bo,
                                          arg_folder = fo, arg_image = False\<rparr>) = Inr ()"
proof -
  let ?w = "w\<lparr>types_map := test2_types (types_map w)\<rparr>"
  let ?a = "\<lparr>arg_file = f, arg_key = ko, arg_bucket = bo, arg_folder = fo, arg_image = False\<rparr>"
  have r: "regular_file ?w (arg_file ?a) q" using assms(1) by (simp add: regular_file_types)
  have b: "truthy (py_or (arg_bucket ?a) (AWS_BUCKET_NAME ?w)) = Some b"
    using py_or_override[OF assms(2)] by simp
  have c: "client ?w ''s3'' = Inr s3" using assms(4) by simp
  have fo: "fd = (case arg_folder ?a of None \<Rightarrow> folder_default | Some f \<Rightarrow> f)"
    using assms(6) by (cases fo) (simp_all add: folder_default_def)
  have k: "test2_build_s3_key q (arg_key ?a) (Some fd) = K"
    using build_key_folder[OF assms(3)] assms(7) by simp
  note m = test2_main_runs[OF r pdf_not_image[OF assms(5)] b fo, unfolded k]
  show "uploads (fst (test2_script w ?a)) = [UploadFile (str q) b K (content_type_args ?w q)]"
    unfolding test2_script_def using m
    by (simp add: uploads_append validate_no_uploads config_line_simps upload_events[OF c])
  assume ok: "s3 (str q) b K (content_type_args ?w q) = None"
  show "logged SUCCESS (fst (test2_script w ?a)) = [''Upload complete: '' @ location b K]"
    unfolding test2_script_def using m
    by (simp add: logged_append validate_no_success config_line_simps upload2_returns[OF c ok])
  show "snd (test2_script w ?a) = Inr ()"
    unfolding test2_script_def using m by (simp add: upload2_returns[OF c ok])
qed


text \<open>
  Claim C2, as amended: in a run with a bucket override \<open>b\<close>, a path that resolves to an
  existing regular file \<open>q\<close>, no explicit key and an S3 client, \<open>test.py\<close> asks for one
  transfer, whose key is the base name of \<open>q\<close>, and when the transfer returns the success
  line is \<open>Upload complete: s3://b/\<close> followed by that name. For a path typed with
  extension \<open>.pdf\<close> and without \<open>--image\<close>, \<open>test2.py\<close> asks for one transfer whose key \<open>K\<close>
  is the base name when \<open>--folder\<close> is the empty string and otherwise the folder (the
  default \<open>dummy_image\<close> when the option is absent) stripped of the slashes at its ends,
  then \<open>/\<close>, then the base name; when the transfer returns the success line is
  \<open>Upload complete: s3://b/K\<close>; and \<open>K\<close> is the base name only when \<open>--folder\<close> is the empty
  string.
\<close>

theorem run_default_key:
  assumes "regular_file w f q" and "truthy bo = Some b" and "truthy ko = None"
    and "client w ''s3'' = Inr s3"
  shows "uploads (fst (test_script w \<lparr>arg_file = f, arg_key = ko, arg_bucket = bo\<rparr>))
           = [UploadFile (str q) b (name q)
                (content_type_args (w\<lparr>types_map := test_types (types_map w)\<rparr>) q)]
       \<and> (s3 (str q) b (name q)
             (content_type_args (w\<lparr>types_map := test_types (types_map w)\<rparr>) q) = None \<longrightarrow>
           logged SUCCESS (fst (test_script w \<lparr>arg_file = f, arg_key = ko, arg_bucket = bo\<rparr>))
             = [''Upload complete: '' @ location b (name q)])
       \<and> (extension f = ''.pdf'' \<longrightarrow>
           uploads (fst (test2_script w \<lparr>arg_file = f, arg_key = ko, arg_bucket = bo,
                                          arg_folder = Some [], arg_image = False\<rparr>))
             = [UploadFile (str q) b (name q)
                  (content_type_args (w\<lparr>types_map := test2_types (types_map w)\<rparr>) q)]
         \<and> uploads (fst (test2_script w \<lparr>arg_file = f, arg_key = ko, arg_bucket = bo,
                                          arg_folder = None, arg_image = False\<rparr>))
             = [UploadFile (str q) b (''dummy_image/'' @ name q)
                  (content_type_args (w\<lparr>types_map := test2_types (types_map w)\<rparr>) q)])
       \<and> (extension f = ''.pdf'' \<longrightarrow>
           (\<forall>fo fd K.
              fd = (case fo of None \<Rightarrow> ''dummy_image'' | Some x \<Rightarrow> x)
              \<and> K = (if fd = [] then name q else py_strip ''/'' fd @ ''/'' @ name q) \<longrightarrow>
                uploads (fst (test2_script w \<lparr>arg_file = f, arg_key = ko, arg_bucket = bo,
                                               arg_folder = fo, arg_image = False\<rparr>))
                  = [UploadFile (str q) b K
                       (content_type_args (w\<lparr>types_map := test2_types (types_map w)\<rparr>) q)]
              \<and> (s3 (str q) b K
                    (content_type_args (w\<lparr>types_map := test2_types (types_map w)\<rparr>) q) = None \<longrightarrow>
                  logged SUCCESS (fst (test2_script w \<lparr>arg_file = f, arg_key = ko, arg_bucket = bo,
                                                       arg_folder = fo, arg_image = False\<rparr>))
                    = [''Upload complete: '' @ location b K])
              \<and> (K = name q \<longleftrightarrow> fo = Some [])))"
proof (intro conjI impI allI)
  let ?w = "w\<lparr>types_map := test_types (types_map w)\<rparr>"
  let ?a = "\<lparr>arg_file = f, arg_key = ko, arg_bucket = bo\<rparr>"
  have r: "regular_file ?w (arg_file ?a) q" using assms(1) by (simp add: regular_file_types)
  have b: "truthy (py_or (arg_bucket ?a) (AWS_BUCKET_NAME ?w)) = Some b"
    using py_or_override[OF assms(2)] by simp
  have c: "client ?w ''s3'' = Inr s3" using assms(4) by simp
  have k: "test_build_s3_key q (arg_key ?a) = name q" using build_key_defaults(1)[OF assms(3)] by simp
  show "uploads (fst (test_script w ?a)) = [UploadFile (str q) b (name q) (content_type_args ?w q)]"
    unfolding test_script_def test_main_runs[OF r b] k
    by (simp add: uploads_append validate_no_uploads config_line_simps upload_events[OF c])
  assume ok: "s3 (str q) b (name q) (content_type_args ?w q) = None"
  show "logged SUCCESS (fst (test_script w ?a)) = [''Upload complete: '' @ location b (name q)]"
    unfolding test_script_def test_main_runs[OF r b] k
    by (simp add: logged_append validate_no_success config_line_simps upload1_returns[OF c ok])
next
  assume pdf: "extension f = ''.pdf''"
  show "uploads (fst (test2_script w \<lparr>arg_file = f, arg_key = ko, arg_bucket = bo,
                                          arg_folder = Some [], arg_image = False\<rparr>))
             = [UploadFile (str q) b (name q)
                  (content_type_args (w\<lparr>types_map := test2_types (types_map w)\<rparr>) q)]"
    by (rule test2_run_events(1)[OF assms pdf, where fd = "[]"]) simp_all
  show "uploads (fst (test2_script w \<lparr>arg_file = f, arg_key = ko, arg_bucket = bo,
                                          arg_folder = None, arg_image = False\<rparr>))
             = [UploadFile (str q) b (''dummy_image/'' @ name q)
                  (content_type_args (w\<lparr>types_map := test2_types (types_map w)\<rparr>) q)]"
    by (rule test2_run_events(1)[OF assms pdf, where fd = "''dummy_image''"])
       (simp_all add: py_strip_def)
next
  fix fo fd K
  assume pdf: "extension f = ''.pdf''"
    and h: "fd = (case fo of None \<Rightarrow> ''dummy_image'' | Some x \<Rightarrow> x)
              \<and> K = (if fd = [] then name q else py_strip ''/'' fd @ ''/'' @ name q)"
  from h have fd: "fd = (case fo of None \<Rightarrow> ''dummy_image'' | Some x \<Rightarrow> x)"
    and K: "K = (if fd = [] then name q else py_strip ''/'' fd @ ''/'' @ name q)" by simp_all
  show "uploads (fst (test2_script w \<lparr>arg_file = f, arg_key = ko, arg_bucket = bo,
                                               arg_folder = fo, arg_image = False\<rparr>))
                  = [UploadFile (str q) b K
                       (content_type_args (w\<lparr>types_map := test2_types (types_map w)\<rparr>) q)]"
    by (rule test2_run_events(1)[OF assms pdf fd K])
  show "K = name q \<longleftrightarrow> fo = Some []"
  proof
    assume "K = name q"
    with K folder_key_differs[of fd "name q"] have "fd = []" by (cases "fd = []") simp_all
    with fd show "fo = Some []" by (cases fo) simp_all
  next
    assume "fo = Some []"
    with fd K show "K = name q" by simp
  qed
  assume ok: "s3 (str q) b K
                    (content_type_args (w\<lparr>types_map := test2_types (types_map w)\<rparr>) q) = None"
  show "logged SUCCESS (fst (test2_script w \<lparr>arg_file = f, arg_key = ko, arg_bucket = bo,
                                                       arg_folder = fo, arg_image = False\<rparr>))
                    = [''Upload complete: '' @ location b K]"
    by (rule test2_run_events(2)[OF assms pdf fd K ok])
qed



lemma test_types_pdf: "test_types tm ''.pdf'' = Some ''application/pdf''"
  by (simp add: test_types_def add_type_def)

lemma test2_types_pdf: "test2_types tm ''.pdf'' = Some ''application/pdf''"
  by (simp add: test2_types_def add_type_def)

lemma test2_types_webp: "test2_types tm ''.webp'' = Some ''image/webp''"
  by (simp add: test2_types_def add_type_def)

lemma test_types_other: "e \<noteq> ''.pdf'' \<Longrightarrow> test_types tm e = tm e"
  by (simp add: test_types_def add_type_def)

text \<open>
  Claim C9, as amended: \<open>infer_content_type\<close> is a function of the type table and the path
  alone and always returns a string. With the types that the \<open>__main__\<close> block enters,
  over any table of the platform, a path with extension \<open>.pdf\<close> yields \<open>application/pdf\<close>
  in both scripts; one with extension \<open>.webp\<close> yields \<open>image/webp\<close> in \<open>test2.py\<close>, which
  enters it, and in \<open>test.py\<close>, which enters \<open>.pdf\<close> only, whatever the table of the
  platform holds for \<open>.webp\<close>, \<open>application/octet-stream\<close> when it holds nothing; an
  extension without an entry in the table yields \<open>application/octet-stream\<close>.
\<close>

theorem infer_content_type_lookup:
  "(extension (str p) = ''.pdf'' \<longrightarrow>
      infer_content_type (w\<lparr>types_map := test_types (types_map w)\<rparr>) p = ''application/pdf''
    \<and> infer_content_type (w\<lparr>types_map := test2_types (types_map w)\<rparr>) p = ''application/pdf'')
   \<and> (extension (str p) = ''.webp'' \<longrightarrow>
      infer_content_type (w\<lparr>types_map := test2_types (types_map w)\<rparr>) p = ''image/webp''
    \<and> infer_content_type (w\<lparr>types_map := test_types (types_map w)\<rparr>) p
        = (case truthy (types_map w ''.webp'') of
             Some t \<Rightarrow> t
           | None \<Rightarrow> ''application/octet-stream''))
   \<and> (types_map w (extension (str p)) = None \<longrightarrow>
      infer_content_type w p = ''application/octet-stream'')"
  by (simp add: infer_content_type_def guess_type_def test_types_pdf test2_types_pdf
      test2_types_webp test_types_other)


lemma sample_regular_file:
  "regular_file sample_world ''chart.PNG'' (PosixPath ''/'' [''data'', ''chart.PNG''])"
  "regular_file sample_world ''notes.txt'' (PosixPath ''/'' [''data'', ''notes.txt''])"
  "regular_file sample_world ''report.PDF'' (PosixPath ''/'' [''data'', ''report.PDF''])"
  "regular_file sample_world ''report.pdf'' (PosixPath ''/'' [''data'', ''report.pdf''])"
  by (simp_all add: regular_file_def sample_world_def Path_def)

lemma sample_suffixes:
  "lower (suffix (PosixPath ''/'' [''data'', ''chart.PNG''])) = ''.png''"
  "lower (suffix (PosixPath ''/'' [''data'', ''notes.txt''])) = ''.txt''"
  "lower (suffix (PosixPath ''/'' [''data'', ''report.PDF''])) = ''.pdf''"
  by code_simp+

lemma sample_client:
  "client sample_world ''s3'' = Inr (\<lambda>f b k x. None)"
  "client failing_world ''s3'' = Inr (\<lambda>f b k x. Some ''timed out'')"
  by (simp_all add: sample_world_def failing_world_def)

theorem image_mode_validation_witness:
  "regular_file sample_world ''chart.PNG'' (PosixPath ''/'' [''data'', ''chart.PNG''])
   \<and> test2_validate_inputs sample_world ''chart.PNG'' True
        = ([], Inr (PosixPath ''/'' [''data'', ''chart.PNG'']))
   \<and> regular_file sample_world ''notes.txt'' (PosixPath ''/'' [''data'', ''notes.txt''])
   \<and> exit_status (test2_validate_inputs sample_world ''notes.txt'' True) = 1
   \<and> uploads (fst (test2_script sample_world
         \<lparr>arg_file = ''notes.txt'', arg_key = None, arg_bucket = Some ''b'',
          arg_folder = None, arg_image = True\<rparr>)) = []"
proof -
  have e1: "lower (suffix (PosixPath ''/'' [''data'', ''chart.PNG''])) \<in> set SUPPORTED_IMAGE_EXTENSIONS"
    by (simp add: sample_suffixes SUPPORTED_IMAGE_EXTENSIONS_def)
  have e2: "lower (suffix (PosixPath ''/'' [''data'', ''notes.txt''])) \<notin> set SUPPORTED_IMAGE_EXTENSIONS"
    by (simp add: sample_suffixes SUPPORTED_IMAGE_EXTENSIONS_def)
  have i: "is_image \<lparr>arg_file = ''notes.txt'', arg_key = None, arg_bucket = Some ''b'',
          arg_folder = None, arg_image = True\<rparr>"
    by (simp add: is_image_def)
  from image_mode_validation[OF sample_regular_file(1)] e1
  have "test2_validate_inputs sample_world ''chart.PNG'' True
        = ([], Inr (PosixPath ''/'' [''data'', ''chart.PNG'']))" by blast
  moreover from image_mode_validation[OF sample_regular_file(2)] e2 i
  have "exit_status (test2_validate_inputs sample_world ''notes.txt'' True) = 1
     \<and> uploads (fst (test2_script sample_world
         \<lparr>arg_file = ''notes.txt'', arg_key = None, arg_bucket = Some ''b'',
          arg_folder = None, arg_image = True\<rparr>)) = []" by simp
  ultimately show ?thesis using sample_regular_file by simp
qed

theorem document_mode_warning_witness:
  "regular_file sample_world ''notes.txt'' (PosixPath ''/'' [''data'', ''notes.txt''])
   \<and> lower (suffix (PosixPath ''/'' [''data'', ''notes.txt''])) \<noteq> ''.pdf''
   \<and> test_validate_inputs sample_world ''notes.txt'' =
        ([Log WARNING ''The specified file does not have a .pdf extension.''],
         Inr (PosixPath ''/'' [''data'', ''notes.txt'']))
   \<and> test2_validate_inputs sample_world ''notes.txt'' False =
        ([Log WARNING ''The specified file does not have a .pdf extension.''],
         Inr (PosixPath ''/'' [''data'', ''notes.txt'']))
   \<and> length (uploads (fst (test_script sample_world
         \<lparr>arg_file = ''notes.txt'', arg_key = None, arg_bucket = Some ''b''\<rparr>))) = 1
   \<and> length (uploads (fst (test2_script sample_world
         \<lparr>arg_file = ''notes.txt'', arg_key = None, arg_bucket = Some ''b'',
          arg_folder = None, arg_image = False\<rparr>))) = 1"
proof -
  have e: "lower (suffix (PosixPath ''/'' [''data'', ''notes.txt''])) \<noteq> ''.pdf''"
    by (simp add: sample_suffixes)
  have i: "\<not> is_image \<lparr>arg_file = ''notes.txt'', arg_key = None, arg_bucket = Some ''b'',
          arg_folder = None, arg_image = False\<rparr>"
    by code_simp
  have b: "truthy (py_or (Some ''b'') (AWS_BUCKET_NAME sample_world)) = Some ''b''"
    by (simp add: py_or_def)
  note t = document_mode_warning[OF sample_regular_file(2) e]
  from t have v: "test_validate_inputs sample_world ''notes.txt'' =
        ([Log WARNING ''The specified file does not have a .pdf extension.''],
         Inr (PosixPath ''/'' [''data'', ''notes.txt'']))
    \<and> test2_validate_inputs sample_world ''notes.txt'' False =
        ([Log WARNING ''The specified file does not have a .pdf extension.''],
         Inr (PosixPath ''/'' [''data'', ''notes.txt'']))" by blast
  from t have "\<forall>a b s3. arg_file a = ''notes.txt''
              \<and> truthy (py_or (arg_bucket a) (AWS_BUCKET_NAME sample_world)) = Some b
              \<and> client sample_world ''s3'' = Inr s3 \<longrightarrow>
            length (uploads (fst (test_script sample_world a))) = 1" by blast
  then have u1: "length (uploads (fst (test_script sample_world
         \<lparr>arg_file = ''notes.txt'', arg_key = None, arg_bucket = Some ''b''\<rparr>))) = 1"
    using b sample_client(1) by simp
  from t have "\<forall>a b s3. arg_file a = ''notes.txt'' \<and> \<not> is_image a
              \<and> truthy (py_or (arg_bucket a) (AWS_BUCKET_NAME sample_world)) = Some b
              \<and> client sample_world ''s3'' = Inr s3 \<longrightarrow>
            length (uploads (fst (test2_script sample_world a))) = 1" by blast
  then have u2: "length (uploads (fst (test2_script sample_world
         \<lparr>arg_file = ''notes.txt'', arg_key = None, arg_bucket = Some ''b'',
          arg_folder = None, arg_image = False\<rparr>))) = 1"
    using b i sample_client(1) by simp
  from v u1 u2 e sample_regular_file(2) show ?thesis by simp
qed


theorem upload_outcomes_witness:
  "snd (test2_upload_file_to_s3 failing_world (PosixPath ''/'' [''data'', ''report.pdf'']) ''b'' ''k'')
     = Inl (SystemExit 1)
   \<and> logged ERROR (fst (test2_upload_file_to_s3 failing_world
        (PosixPath ''/'' [''data'', ''report.pdf'']) ''b'' ''k'')) = [''Upload failed: timed out'']
   \<and> snd (test2_upload_file_to_s3 sample_world (PosixPath ''/'' [''data'', ''report.pdf'']) ''b'' ''k'')
     = Inr ''s3://b/k''
   \<and> logged SUCCESS (fst (test_upload_file_to_s3 sample_world
        (PosixPath ''/'' [''data'', ''report.pdf'']) ''b'' ''k'')) = [''Upload complete: s3://b/k'']"
proof -
  let ?p = "PosixPath ''/'' [''data'', ''report.pdf'']"
  note f = upload_outcomes[OF sample_client(2), where p = ?p and b = "''b''" and k = "''k''" and e = "''timed out''"]
  note g = upload_outcomes[OF sample_client(1), where p = ?p and b = "''b''" and k = "''k''"]
  from f have "snd (test2_upload_file_to_s3 failing_world ?p ''b'' ''k'') = Inl (SystemExit 1)
     \<and> logged ERROR (fst (test2_upload_file_to_s3 failing_world ?p ''b'' ''k''))
         = [''Upload failed: timed out'']"
    by simp
  moreover from g have "snd (test2_upload_file_to_s3 sample_world ?p ''b'' ''k'') = Inr ''s3://b/k''
     \<and> logged SUCCESS (fst (test_upload_file_to_s3 sample_world ?p ''b'' ''k''))
         = [''Upload complete: s3://b/k'']"
    by (simp add: location_def)
  ultimately show ?thesis by simp
qed

theorem extension_checks_ignore_case_witness:
  "regular_file sample_world ''chart.PNG'' (PosixPath ''/'' [''data'', ''chart.PNG''])
   \<and> test2_validate_inputs sample_world ''chart.PNG'' True
        = ([], Inr (PosixPath ''/'' [''data'', ''chart.PNG'']))
   \<and> regular_file sample_world ''report.PDF'' (PosixPath ''/'' [''data'', ''report.PDF''])
   \<and> test_validate_inputs sample_world ''report.PDF''
        = ([], Inr (PosixPath ''/'' [''data'', ''report.PDF'']))
   \<and> test2_validate_inputs sample_world ''report.PDF'' False
        = ([], Inr (PosixPath ''/'' [''data'', ''report.PDF'']))"
proof -
  have m: "''.png'' \<in> set SUPPORTED_IMAGE_EXTENSIONS"
    by (simp add: SUPPORTED_IMAGE_EXTENSIONS_def)
  have e1: "lower (suffix (PosixPath ''/'' [''data'', ''chart.PNG''])) = lower ''.png''"
    by code_simp
  have e2: "lower (suffix (PosixPath ''/'' [''data'', ''report.PDF''])) = lower ''.pdf''"
    by code_simp
  from extension_checks_ignore_case[OF sample_regular_file(1)] m e1
  have "test2_validate_inputs sample_world ''chart.PNG'' True
        = ([], Inr (PosixPath ''/'' [''data'', ''chart.PNG'']))" by blast
  moreover from extension_checks_ignore_case[OF sample_regular_file(3)] e2
  have "test_validate_inputs sample_world ''report.PDF''
        = ([], Inr (PosixPath ''/'' [''data'', ''report.PDF'']))
     \<and> test2_validate_inputs sample_world ''report.PDF'' False
        = ([], Inr (PosixPath ''/'' [''data'', ''report.PDF'']))" by blast
  ultimately show ?thesis using sample_regular_file by simp
qed

lemma sample_extensions:
  "extension ''report.pdf'' = ''.pdf''"
  "extension (str (Path ''report.pdf'')) = ''.pdf''"
  "extension (str (Path ''image.webp'')) = ''.webp''"
  "extension (str (Path ''file.unknownext'')) = ''.unknownext''"
  by code_simp+

theorem infer_content_type_lookup_witness:
  "infer_content_type (sample_world\<lparr>types_map := test_types (types_map sample_world)\<rparr>)
     (Path ''report.pdf'') = ''application/pdf''
   \<and> infer_content_type (sample_world\<lparr>types_map := test2_types (types_map sample_world)\<rparr>)
     (Path ''image.webp'') = ''image/webp''
   \<and> infer_content_type
       (sample_world\<lparr>types_map := test_types [''.webp'' \<mapsto> ''image/webp'']\<rparr>)
     (Path ''image.webp'') = ''image/webp''
   \<and> infer_content_type (sample_world\<lparr>types_map := test2_types (types_map sample_world)\<rparr>)
     (Path ''file.unknownext'') = ''application/octet-stream''"
proof -
  let ?w2 = "sample_world\<lparr>types_map := test2_types (types_map sample_world)\<rparr>"
  let ?w3 = "sample_world\<lparr>types_map := [''.webp'' \<mapsto> ''image/webp'']\<rparr>"
  have n: "types_map ?w2 (extension (str (Path ''file.unknownext''))) = None"
    by (simp add: sample_extensions sample_world_def test2_types_def add_type_def)
  from infer_content_type_lookup[where p = "Path ''report.pdf''" and w = sample_world] sample_extensions(2)
  have "infer_content_type (sample_world\<lparr>types_map := test_types (types_map sample_world)\<rparr>)
     (Path ''report.pdf'') = ''application/pdf''" by blast
  moreover from infer_content_type_lookup[where p = "Path ''image.webp''" and w = sample_world] sample_extensions(3)
  have "infer_content_type ?w2 (Path ''image.webp'') = ''image/webp''" by blast
  moreover from infer_content_type_lookup[where p = "Path ''image.webp''" and w = ?w3] sample_extensions(3)
  have "infer_content_type (sample_world\<lparr>types_map := test_types [''.webp'' \<mapsto> ''image/webp'']\<rparr>)
     (Path ''image.webp'') = ''image/webp''" by simp
  moreover from infer_content_type_lookup[where p = "Path ''file.unknownext''" and w = ?w2] n
  have "infer_content_type ?w2 (Path ''file.unknownext'') = ''application/octet-stream''" by blast
  ultimately show ?thesis by simp
qed

theorem run_default_key_witness:
  "regular_file sample_world ''report.pdf'' (PosixPath ''/'' [''data'', ''report.pdf''])
   \<and> uploads (fst (test_script sample_world
        \<lparr>arg_file = ''report.pdf'', arg_key = None, arg_bucket = Some ''b''\<rparr>))
      = [UploadFile ''/data/report.pdf'' ''b'' ''report.pdf'' [(''ContentType'', ''application/pdf'')]]
   \<and> logged SUCCESS (fst (test_script sample_world
        \<lparr>arg_file = ''report.pdf'', arg_key = None, arg_bucket = Some ''b''\<rparr>))
      = [''Upload complete: s3://b/report.pdf'']
   \<and> uploads (fst (test2_script sample_world
        \<lparr>arg_file = ''report.pdf'', arg_key = None, arg_bucket = Some ''b'',
         arg_folder = Some [], arg_image = False\<rparr>))
      = [UploadFile ''/data/report.pdf'' ''b'' ''report.pdf'' [(''ContentType'', ''application/pdf'')]]
   \<and> logged SUCCESS (fst (test2_script sample_world
        \<lparr>arg_file = ''report.pdf'', arg_key = None, arg_bucket = Some ''b'',
         arg_folder = Some [], arg_image = False\<rparr>))
      = [''Upload complete: s3://b/report.pdf'']
   \<and> uploads (fst (test2_script sample_world
        \<lparr>arg_file = ''report.pdf'', arg_key = None, arg_bucket = Some ''b'',
         arg_folder = Some ''/docs/'', arg_image = False\<rparr>))
      = [UploadFile ''/data/report.pdf'' ''b'' ''docs/report.pdf''
           [(''ContentType'', ''application/pdf'')]]
   \<and> logged SUCCESS (fst (test2_script sample_world
        \<lparr>arg_file = ''report.pdf'', arg_key = None, arg_bucket = Some ''b'',
         arg_folder = Some ''/docs/'', arg_image = False\<rparr>))
      = [''Upload complete: s3://b/docs/report.pdf'']"
proof -
  let ?q = "PosixPath ''/'' [''data'', ''report.pdf'']"
  let ?w2 = "sample_world\<lparr>types_map := test2_types (types_map sample_world)\<rparr>"
  have s: "str ?q = ''/data/report.pdf''" "name ?q = ''report.pdf''"
    by (simp_all add: str_def name_def)
  have x: "extension (str ?q) = ''.pdf''" by code_simp
  have c1: "content_type_args (sample_world\<lparr>types_map := test_types (types_map sample_world)\<rparr>) ?q
             = [(''ContentType'', ''application/pdf'')]"
    using x by (simp add: content_type_args_def infer_content_type_def guess_type_def test_types_pdf)
  have c2: "content_type_args ?w2 ?q = [(''ContentType'', ''application/pdf'')]"
    using x by (simp add: content_type_args_def infer_content_type_def guess_type_def test2_types_pdf)
  have d: "py_strip ''/'' ''/docs/'' = ''docs''" by (simp add: py_strip_def)
  note t = run_default_key[OF sample_regular_file(4), where bo = "Some ''b''" and b = "''b''" and ko = None
      and ?s3.0 = "\<lambda>f b k x. None", simplified s c1 c2 sample_client(1) sample_extensions(1)]
  from t have g: "\<forall>fo fd K.
              fd = (case fo of None \<Rightarrow> ''dummy_image'' | Some x \<Rightarrow> x)
              \<and> K = (if fd = [] then ''report.pdf'' else py_strip ''/'' fd @ ''/'' @ ''report.pdf'') \<longrightarrow>
                uploads (fst (test2_script sample_world \<lparr>arg_file = ''report.pdf'', arg_key = None,
                     arg_bucket = Some ''b'', arg_folder = fo, arg_image = False\<rparr>))
                  = [UploadFile ''/data/report.pdf'' ''b'' K [(''ContentType'', ''application/pdf'')]]
              \<and> logged SUCCESS (fst (test2_script sample_world \<lparr>arg_file = ''report.pdf'',
                     arg_key = None, arg_bucket = Some ''b'', arg_folder = fo, arg_image = False\<rparr>))
                    = [''Upload complete: '' @ location ''b'' K]"
    by simp
  have g1: "uploads (fst (test2_script sample_world \<lparr>arg_file = ''report.pdf'', arg_key = None,
                     arg_bucket = Some ''b'', arg_folder = Some [], arg_image = False\<rparr>))
                  = [UploadFile ''/data/report.pdf'' ''b'' ''report.pdf'' [(''ContentType'', ''application/pdf'')]]
              \<and> logged SUCCESS (fst (test2_script sample_world \<lparr>arg_file = ''report.pdf'',
                     arg_key = None, arg_bucket = Some ''b'', arg_folder = Some [], arg_image = False\<rparr>))
                    = [''Upload complete: s3://b/report.pdf'']"
    using g[rule_format, of "[]" "Some []" "''report.pdf''"] by (simp add: location_def)
  have g2: "uploads (fst (test2_script sample_world \<lparr>arg_file = ''report.pdf'', arg_key = None,
                     arg_bucket = Some ''b'', arg_folder = Some ''/docs/'', arg_image = False\<rparr>))
                  = [UploadFile ''/data/report.pdf'' ''b'' ''docs/report.pdf'' [(''ContentType'', ''application/pdf'')]]
              \<and> logged SUCCESS (fst (test2_script sample_world \<lparr>arg_file = ''report.pdf'',
                     arg_key = None, arg_bucket = Some ''b'', arg_folder = Some ''/docs/'', arg_image = False\<rparr>))
                    = [''Upload complete: s3://b/docs/report.pdf'']"
    using g[rule_format, of "''/docs/''" "Some ''/docs/''" "''docs/report.pdf''"]
    by (simp add: location_def d)
  from t g1 g2 show ?thesis
    using sample_regular_file(4) by (simp add: location_def)
qed

text \<open>A run of \<open>test2.py\<close> on a PDF with the default folder: the key carries the folder.\<close>

theorem test2_run_key_has_folder:
  "uploads (fst (test2_script sample_world
        \<lparr>arg_file = ''report.pdf'', arg_key = None, arg_bucket = Some ''b'',
         arg_folder = None, arg_image = False\<rparr>))
      = [UploadFile ''/data/report.pdf'' ''b'' ''dummy_image/report.pdf''
           [(''ContentType'', ''application/pdf'')]]
   \<and> name (PosixPath ''/'' [''data'', ''report.pdf'']) = ''report.pdf''
   \<and> logged SUCCESS (fst (test2_script sample_world
        \<lparr>arg_file = ''report.pdf'', arg_key = None, arg_bucket = Some ''b'',
         arg_folder = None, arg_image = False\<rparr>))
      = [''Upload complete: s3://b/dummy_image/report.pdf'']"
  by code_simp

text \<open>In \<open>test.py\<close>, over a platform table without \<open>.webp\<close>, a WebP image gets the generic
  type.\<close>

theorem test_webp_not_entered:
  "infer_content_type (sample_world\<lparr>types_map := test_types (types_map sample_world)\<rparr>)
     (Path ''image.webp'') = ''application/octet-stream''
   \<and> ''application/octet-stream'' \<noteq> ''image/webp''"
  by code_simp

end
